theory Spec2Isabelle
  imports Complex_Main
begin

section \<open>Values handled by \<open>arcade/camera/static.py\<close>\<close>

text \<open>
  The module stores and forwards matrices, vectors and viewports; it performs no arithmetic
  on them.  A Python float is read as a \<open>real\<close>, a \<open>Mat4\<close> (a tuple of sixteen floats in
  pyglet) as a list of reals, a viewport \<open>Tuple[int, int, int, int]\<close> as a quadruple of
  integers.  A 4-tuple is truthy in Python whatever its components, so in
  \<open>viewport or d\<close> the default \<open>d\<close> is taken exactly when \<open>viewport\<close> is \<open>None\<close>.
\<close>

type_synonym viewport = "int \<times> int \<times> int \<times> int"
type_synonym mat4 = "real list"

datatype Vec3 = Vec3 (vec3_x: real) (vec3_y: real) (vec3_z: real)
datatype Vec2 = Vec2 (vec2_x: real) (vec2_y: real)

text \<open>The exceptions that can leave the module.  \<open>ValueError\<close> carries its message.\<close>

datatype error =
    ValueError string
  | IndexError
  | AttributeError
  | RuntimeError
  | OtherError string

text \<open>
  Modelled from the spec: the descriptor classes of \<open>arcade.camera.data_types\<close> are
  imported by the module and not defined in it.  \<open>CameraData\<close> is built positionally from
  position, up, forward and zoom (lines 140 and 163); \<open>OrthographicProjectionData\<close> from
  left, right, bottom, top, near, far and a viewport (line 144);
  \<open>PerspectiveProjectionData\<close> from aspect, fov, near, far and a viewport (line 166).  The
  module reads only the attributes \<open>zoom\<close> and \<open>viewport\<close>.  Python does not enforce the
  annotation of a parameter, so one type holds both projection descriptors, and the
  viewport of a descriptor handed in by a caller may be \<open>None\<close>.
\<close>

datatype CameraData =
  CameraData (data_position: "real \<times> real \<times> real") (data_up: "real \<times> real \<times> real")
    (data_forward: "real \<times> real \<times> real") (data_zoom: real)

datatype ProjectionData =
    OrthographicProjectionData real real real real real real "viewport option"
  | PerspectiveProjectionData real real real real "viewport option"

fun data_viewport :: "ProjectionData \<Rightarrow> viewport option" where
  "data_viewport (OrthographicProjectionData l r b t n f v) = v"
| "data_viewport (PerspectiveProjectionData a fov n f v) = v"

type_synonym project_fn = "Vec3 \<Rightarrow> viewport \<Rightarrow> mat4 \<Rightarrow> mat4 \<Rightarrow> error + Vec2"
type_synonym unproject_fn =
  "Vec2 \<Rightarrow> viewport \<Rightarrow> mat4 \<Rightarrow> mat4 \<Rightarrow> real option \<Rightarrow> error + Vec3"

text \<open>
  Modelled from the spec: the seven functions imported from
  \<open>arcade.camera.projection_functions\<close> are not in the module.  They are taken as
  parameters, each a function of its arguments that returns a value or raises.
\<close>

record externals =
  generate_view_matrix :: "CameraData \<Rightarrow> error + mat4"
  generate_orthographic_matrix :: "ProjectionData \<Rightarrow> real \<Rightarrow> error + mat4"
  generate_perspective_matrix :: "ProjectionData \<Rightarrow> real \<Rightarrow> error + mat4"
  project_orthographic :: project_fn
  project_perspective :: project_fn
  unproject_orthographic :: unproject_fn
  unproject_perspective :: unproject_fn

section \<open>Objects and the store\<close>

type_synonym cam_ref = nat
type_synonym win_ref = nat

text \<open>
  Modelled from the spec: the classes \<open>Window\<close> and \<open>ArcadeContext\<close> are not in the module.
  The window/context collaborator exposes four mutable fields: one current-camera slot,
  the viewport, the projection matrix and the view matrix.  The current-camera slot is the
  one that \<open>use\<close> sets (written in the source as \<open>self._win.current_camera\<close>) and that
  \<open>activate\<close> records (read in the source as \<open>self._win.ctx.current_camera\<close>): both
  attribute paths denote the field \<open>ctx_current_camera\<close>.  The slot holds a reference to a
  camera or \<open>None\<close>.  Whatever else the context holds is \<open>ctx_other\<close>, of any type.
\<close>

record 'r arcade_context =
  ctx_current_camera :: "cam_ref option"
  ctx_viewport :: viewport
  ctx_projection_matrix :: mat4
  ctx_view_matrix :: mat4
  ctx_other :: 'r

record 'r window =
  ctx :: "'r arcade_context"

text \<open>The attributes of a \<open>_StaticCamera\<close> (lines 35 to 41); \<open>self_win\<close> is \<open>self._win\<close>.\<close>

record static_camera =
  self_win :: win_ref
  self_viewport :: viewport
  self_view :: mat4
  self_projection :: mat4
  self_project_method :: "project_fn option"
  self_unproject_method :: "unproject_fn option"

text \<open>
  The store: the camera objects and the windows by reference, the next free camera
  reference, and the registry that \<open>get_window\<close> consults.  \<open>use_calls\<close> is no attribute of
  the program: it is the trace of the calls of \<open>use\<close>, in order, kept so that how often a
  method ran can be stated.
\<close>

record 'r world =
  cams :: "cam_ref \<Rightarrow> static_camera"
  next_cam :: cam_ref
  wins :: "win_ref \<Rightarrow> 'r window"
  active_window :: "win_ref option"
  use_calls :: "cam_ref list"

text \<open>
  Modelled from the spec: \<open>get_window\<close> of \<open>arcade.window_commands\<close> is not in the module;
  it looks the active window up in a process-wide registry, and raises when there is none.
\<close>

definition get_window :: "'r world \<Rightarrow> error + win_ref" where
  "get_window s = (case active_window s of None \<Rightarrow> Inl RuntimeError | Some w \<Rightarrow> Inr w)"

text \<open>The expression \<open>window or get_window()\<close> of the constructor (line 35).\<close>

definition target_window :: "win_ref option \<Rightarrow> 'r world \<Rightarrow> error + win_ref" where
  "target_window window s = (case window of Some w \<Rightarrow> Inr w | None \<Rightarrow> get_window s)"

text \<open>
  Attribute assignments \<open>win.current_camera = v\<close>, which stores into the current-camera slot
  of the window's context, and \<open>win.ctx.<attribute> = v\<close>.
\<close>

definition set_current_camera :: "win_ref \<Rightarrow> cam_ref option \<Rightarrow> 'r world \<Rightarrow> 'r world" where
  "set_current_camera w v s =
     s\<lparr>wins := (wins s)(w := (wins s w)\<lparr>ctx := (ctx (wins s w))\<lparr>ctx_current_camera := v\<rparr>\<rparr>)\<rparr>"

definition set_ctx_viewport :: "win_ref \<Rightarrow> viewport \<Rightarrow> 'r world \<Rightarrow> 'r world" where
  "set_ctx_viewport w v s =
     s\<lparr>wins := (wins s)(w := (wins s w)\<lparr>ctx := (ctx (wins s w))\<lparr>ctx_viewport := v\<rparr>\<rparr>)\<rparr>"

definition set_ctx_projection_matrix :: "win_ref \<Rightarrow> mat4 \<Rightarrow> 'r world \<Rightarrow> 'r world" where
  "set_ctx_projection_matrix w v s =
     s\<lparr>wins := (wins s)(w := (wins s w)\<lparr>ctx := (ctx (wins s w))\<lparr>ctx_projection_matrix := v\<rparr>\<rparr>)\<rparr>"

definition set_ctx_view_matrix :: "win_ref \<Rightarrow> mat4 \<Rightarrow> 'r world \<Rightarrow> 'r world" where
  "set_ctx_view_matrix w v s =
     s\<lparr>wins := (wins s)(w := (wins s w)\<lparr>ctx := (ctx (wins s w))\<lparr>ctx_view_matrix := v\<rparr>\<rparr>)\<rparr>"

section \<open>The class \<open>_StaticCamera\<close>\<close>

text \<open>
  \<open>__init__\<close> (lines 27 to 41): the window is the one given or the active one, the viewport
  the one given or the viewport of that window's context.  The new object gets the next
  free reference.
\<close>

definition StaticCamera ::
  "mat4 \<Rightarrow> mat4 \<Rightarrow> viewport option \<Rightarrow> project_fn option \<Rightarrow> unproject_fn option \<Rightarrow>
   win_ref option \<Rightarrow> 'r world \<Rightarrow> (error + cam_ref) \<times> 'r world" where
  "StaticCamera view_matrix projection_matrix viewport project_method unproject_method window s =
     (case target_window window s of
        Inl e \<Rightarrow> (Inl e, s)
      | Inr w \<Rightarrow>
          let self = next_cam s;
              obj = \<lparr>self_win = w,
                     self_viewport =
                       (case viewport of Some v \<Rightarrow> v | None \<Rightarrow> ctx_viewport (ctx (wins s w))),
                     self_view = view_matrix,
                     self_projection = projection_matrix,
                     self_project_method = project_method,
                     self_unproject_method = unproject_method\<rparr>
          in (Inr self, s\<lparr>cams := (cams s)(self := obj), next_cam := Suc self\<rparr>))"

text \<open>\<open>use\<close> (lines 43 to 48): four assignments, in the order of the source.\<close>

definition use :: "cam_ref \<Rightarrow> 'r world \<Rightarrow> 'r world" where
  "use self s =
     (let s0 = s\<lparr>use_calls := use_calls s @ [self]\<rparr>;
          s1 = set_current_camera (self_win (cams s0 self)) (Some self) s0;
          s2 = set_ctx_viewport (self_win (cams s1 self)) (self_viewport (cams s1 self)) s1;
          s3 = set_ctx_projection_matrix (self_win (cams s2 self)) (self_projection (cams s2 self)) s2
      in set_ctx_view_matrix (self_win (cams s3 self)) (self_view (cams s3 self)) s3)"

text \<open>
  \<open>activate\<close> (lines 50 to 57), with the body of the \<open>with\<close> statement as an argument: the
  body receives the camera that is yielded and the world, and returns normally or raises,
  leaving a world in both cases.  The \<open>finally\<close> clause runs either way; \<open>prev.use()\<close> on
  \<open>None\<close> raises \<open>AttributeError\<close>, which replaces an exception of the body.
\<close>

definition activate ::
  "cam_ref \<Rightarrow> (cam_ref \<Rightarrow> 'r world \<Rightarrow> (error + unit) \<times> 'r world) \<Rightarrow> 'r world \<Rightarrow> (error + unit) \<times> 'r world" where
  "activate self body s =
     (let prev = ctx_current_camera (ctx (wins s (self_win (cams s self))));
          s1 = use self s;
          (r, s2) = body self s1
      in case prev of
           None \<Rightarrow> (Inl AttributeError, s2)
         | Some p \<Rightarrow> (r, use p s2))"

text \<open>Subscription \<open>t[i]\<close> of a tuple with a literal index \<open>i \<ge> 0\<close>.\<close>

definition getitem :: "'a list \<Rightarrow> nat \<Rightarrow> error + 'a" where
  "getitem t i = (if i < length t then Inr (t ! i) else Inl IndexError)"

text \<open>
  \<open>project\<close> (lines 59 to 70).  The coordinate is a \<open>Tuple[float, ...]\<close>, a tuple of any
  length; its components 0, 1 and 2 are read before the stored function is called.
\<close>

definition project :: "cam_ref \<Rightarrow> real list \<Rightarrow> 'r world \<Rightarrow> (error + real \<times> real) \<times> 'r world" where
  "project self world_coordinate s =
     (case self_project_method (cams s self) of
        None \<Rightarrow>
          (Inl (ValueError ''This Static Camera was not provided a project method at creation''), s)
      | Some project_method \<Rightarrow>
          (case getitem world_coordinate 0 of Inl e \<Rightarrow> (Inl e, s) | Inr c0 \<Rightarrow>
          (case getitem world_coordinate 1 of Inl e \<Rightarrow> (Inl e, s) | Inr c1 \<Rightarrow>
          (case getitem world_coordinate 2 of Inl e \<Rightarrow> (Inl e, s) | Inr c2 \<Rightarrow>
          (case project_method (Vec3 c0 c1 c2) (self_viewport (cams s self))
                  (self_view (cams s self)) (self_projection (cams s self)) of
             Inl e \<Rightarrow> (Inl e, s)
           | Inr pos \<Rightarrow> (Inr (vec2_x pos, vec2_y pos), s))))))"

text \<open>\<open>unproject\<close> (lines 72 to 96); the screen coordinate is a \<open>Tuple[float, float]\<close>.\<close>

definition unproject ::
  "cam_ref \<Rightarrow> real \<times> real \<Rightarrow> real option \<Rightarrow> 'r world \<Rightarrow> (error + real \<times> real \<times> real) \<times> 'r world" where
  "unproject self screen_coordinate depth s =
     (case self_unproject_method (cams s self) of
        None \<Rightarrow>
          (Inl (ValueError ''This Static Camera was not provided an unproject method at creation''), s)
      | Some unproject_method \<Rightarrow>
          (case unproject_method (Vec2 (fst screen_coordinate) (snd screen_coordinate))
                  (self_viewport (cams s self)) (self_view (cams s self))
                  (self_projection (cams s self)) depth of
             Inl e \<Rightarrow> (Inl e, s)
           | Inr pos \<Rightarrow> (Inr (vec3_x pos, vec3_y pos, vec3_z pos), s)))"

section \<open>The construction helpers\<close>

definition static_from_orthographic ::
  "externals \<Rightarrow> CameraData \<Rightarrow> ProjectionData \<Rightarrow> win_ref option \<Rightarrow> 'r world \<Rightarrow>
   (error + cam_ref) \<times> 'r world" where
  "static_from_orthographic ext view orthographic window s =
     (case generate_view_matrix ext view of Inl e \<Rightarrow> (Inl e, s) | Inr view_matrix \<Rightarrow>
     (case generate_orthographic_matrix ext orthographic (data_zoom view) of
        Inl e \<Rightarrow> (Inl e, s)
      | Inr projection_matrix \<Rightarrow>
          StaticCamera view_matrix projection_matrix (data_viewport orthographic)
            (Some (project_orthographic ext)) (Some (unproject_orthographic ext)) window s))"

definition static_from_perspective ::
  "externals \<Rightarrow> CameraData \<Rightarrow> ProjectionData \<Rightarrow> win_ref option \<Rightarrow> 'r world \<Rightarrow>
   (error + cam_ref) \<times> 'r world" where
  "static_from_perspective ext view perspective window s =
     (case generate_view_matrix ext view of Inl e \<Rightarrow> (Inl e, s) | Inr view_matrix \<Rightarrow>
     (case generate_orthographic_matrix ext perspective (data_zoom view) of
        Inl e \<Rightarrow> (Inl e, s)
      | Inr projection_matrix \<Rightarrow>
          StaticCamera view_matrix projection_matrix (data_viewport perspective)
            (Some (project_perspective ext)) (Some (unproject_perspective ext)) window s))"

definition static_from_raw_orthographic ::
  "externals \<Rightarrow> real \<times> real \<times> real \<times> real \<Rightarrow> real \<Rightarrow> real \<Rightarrow> real \<Rightarrow>
   real \<times> real \<times> real \<Rightarrow> real \<times> real \<times> real \<Rightarrow> real \<times> real \<times> real \<Rightarrow>
   viewport option \<Rightarrow> win_ref option \<Rightarrow> 'r world \<Rightarrow> (error + cam_ref) \<times> 'r world" where
  "static_from_raw_orthographic ext projection near far zoom position up forward viewport window s =
     (case generate_view_matrix ext (CameraData position up forward zoom) of
        Inl e \<Rightarrow> (Inl e, s)
      | Inr view \<Rightarrow>
     (case generate_orthographic_matrix ext
             (case projection of (p0, p1, p2, p3) \<Rightarrow>
                OrthographicProjectionData p0 p1 p2 p3 near far
                  (Some (case viewport of Some v \<Rightarrow> v | None \<Rightarrow> (0, 0, 0, 0))))
             zoom of
        Inl e \<Rightarrow> (Inl e, s)
      | Inr proj \<Rightarrow>
          StaticCamera view proj viewport
            (Some (project_orthographic ext)) (Some (unproject_orthographic ext)) window s))"

definition static_from_raw_perspective ::
  "externals \<Rightarrow> real \<Rightarrow> real \<Rightarrow> real \<Rightarrow> real \<Rightarrow> real \<Rightarrow>
   real \<times> real \<times> real \<Rightarrow> real \<times> real \<times> real \<Rightarrow> real \<times> real \<times> real \<Rightarrow>
   viewport option \<Rightarrow> win_ref option \<Rightarrow> 'r world \<Rightarrow> (error + cam_ref) \<times> 'r world" where
  "static_from_raw_perspective ext aspect fov near far zoom position up forward viewport window s =
     (case generate_view_matrix ext (CameraData position up forward zoom) of
        Inl e \<Rightarrow> (Inl e, s)
      | Inr view \<Rightarrow>
     (case generate_perspective_matrix ext
             (PerspectiveProjectionData aspect fov near far
                (Some (case viewport of Some v \<Rightarrow> v | None \<Rightarrow> (0, 0, 0, 0))))
             zoom of
        Inl e \<Rightarrow> (Inl e, s)
      | Inr proj \<Rightarrow>
          StaticCamera view proj viewport
            (Some (project_perspective ext)) (Some (unproject_perspective ext)) window s))"

definition static_from_matrices ::
  "mat4 \<Rightarrow> mat4 \<Rightarrow> viewport option \<Rightarrow> win_ref option \<Rightarrow> project_fn option \<Rightarrow>
   unproject_fn option \<Rightarrow> 'r world \<Rightarrow> (error + cam_ref) \<times> 'r world" where
  "static_from_matrices view projection viewport window project_method unproject_method s =
     StaticCamera view projection viewport project_method unproject_method window s"

section \<open>Sequences of method calls\<close>

text \<open>
  A client of the class calls its four methods, in any order and nested in the scopes of
  \<open>activate\<close>.  A call that raises ends the sequence it stands in; inside a scope
  the \<open>finally\<close> clause of \<open>activate\<close> still runs.
\<close>

datatype call =
    Use cam_ref
  | Activate cam_ref "call list"
  | Project cam_ref "real list"
  | Unproject cam_ref "real \<times> real" "real option"

fun exec :: "call \<Rightarrow> 'r world \<Rightarrow> (error + unit) \<times> 'r world"
  and exec_list :: "call list \<Rightarrow> 'r world \<Rightarrow> (error + unit) \<times> 'r world" where
  "exec (Use c) s = (Inr (), use c s)"
| "exec (Activate c body) s = activate c (\<lambda>_. exec_list body) s"
| "exec (Project c p) s =
     (case project c p s of (Inl e, s') \<Rightarrow> (Inl e, s') | (Inr _, s') \<Rightarrow> (Inr (), s'))"
| "exec (Unproject c p d) s =
     (case unproject c p d s of (Inl e, s') \<Rightarrow> (Inl e, s') | (Inr _, s') \<Rightarrow> (Inr (), s'))"
| "exec_list [] s = (Inr (), s)"
| "exec_list (x # xs) s =
     (case exec x s of (Inl e, s') \<Rightarrow> (Inl e, s') | (Inr _, s') \<Rightarrow> exec_list xs s')"

section \<open>Replacing the other state of the contexts\<close>

text \<open>
  \<open>replace_other g\<close> puts \<open>g w\<close> in the place of everything the context of window \<open>w\<close>
  holds besides the four fields, for every window.  It is no operation of the program: an
  operation that gives the same result before and after it, and leaves a world on which it
  has the same effect, neither reads nor writes that other state.
\<close>

definition replace_other :: "(win_ref \<Rightarrow> 'r) \<Rightarrow> 'r world \<Rightarrow> 'r world" where
  "replace_other g s =
     s\<lparr>wins := (\<lambda>w. (wins s w)\<lparr>ctx := (ctx (wins s w))\<lparr>ctx_other := g w\<rparr>\<rparr>)\<rparr>"

section \<open>Concrete worlds\<close>

text \<open>
  Stand-ins for the imported functions, and a world with cameras that all belong to window
  0: camera \<open>r\<close> has the viewport \<open>(0, 0, r, r)\<close>; camera 0 has no project and no unproject
  function.  What the contexts hold as current camera is the argument \<open>held\<close>; their other
  state is the number 7.  In \<open>stray_world\<close> camera 2 belongs to window 1 while the context
  of window 0 holds it.
\<close>

definition example_externals :: externals where
  "example_externals =
     \<lparr>generate_view_matrix = (\<lambda>_. Inr [1]),
      generate_orthographic_matrix = (\<lambda>_ _. Inr [2]),
      generate_perspective_matrix = (\<lambda>_ _. Inr [3]),
      project_orthographic = (\<lambda>v _ _ _. Inr (Vec2 (vec3_x v) (vec3_y v))),
      project_perspective = (\<lambda>v _ _ _. Inr (Vec2 (vec3_x v / 2) (vec3_y v / 2))),
      unproject_orthographic = (\<lambda>v _ _ _ _. Inr (Vec3 (vec2_x v) (vec2_y v) 0)),
      unproject_perspective = (\<lambda>v _ _ _ _. Inr (Vec3 (2 * vec2_x v) (2 * vec2_y v) 0))\<rparr>"

definition example_window :: "cam_ref option \<Rightarrow> nat window" where
  "example_window held =
     \<lparr>ctx = \<lparr>ctx_current_camera = held, ctx_viewport = (0, 0, 800, 600),
             ctx_projection_matrix = [2], ctx_view_matrix = [1], ctx_other = 7\<rparr>\<rparr>"

definition example_world :: "cam_ref option \<Rightarrow> nat world" where
  "example_world held =
     \<lparr>cams = (\<lambda>r. \<lparr>self_win = 0, self_viewport = (0, 0, int r, int r),
                     self_view = [real r], self_projection = [real r + 1],
                     self_project_method =
                       (if r = 0 then None else Some (project_orthographic example_externals)),
                     self_unproject_method =
                       (if r = 0 then None else Some (unproject_orthographic example_externals))\<rparr>),
      next_cam = 3,
      wins = (\<lambda>_. example_window held),
      active_window = Some 0,
      use_calls = []\<rparr>"


section \<open>Unfolding rules\<close>

lemmas example_defs = example_world_def example_window_def example_externals_def

lemmas build_defs = static_from_orthographic_def static_from_perspective_def
  static_from_raw_orthographic_def static_from_raw_perspective_def static_from_matrices_def
  StaticCamera_def target_window_def get_window_def Let_def

lemmas setters = set_current_camera_def set_ctx_viewport_def
      set_ctx_projection_matrix_def set_ctx_view_matrix_def

section \<open>Effects of \<open>use\<close> on the store\<close>

lemma use_cams: "cams (use c s) = cams s"
  by (simp add: use_def Let_def setters)

lemma use_wins:
  "wins (use c s) =
     (wins s)(self_win (cams s c) :=
        \<lparr>ctx = \<lparr>ctx_current_camera = Some c,
                ctx_viewport = self_viewport (cams s c),
                ctx_projection_matrix = self_projection (cams s c),
                ctx_view_matrix = self_view (cams s c),
                ctx_other = ctx_other (ctx (wins s (self_win (cams s c))))\<rparr>\<rparr>)"
  by (simp add: use_def Let_def setters fun_eq_iff)

lemma use_next_cam: "next_cam (use c s) = next_cam s"
  by (simp add: use_def Let_def setters)

lemma use_active_window: "active_window (use c s) = active_window s"
  by (simp add: use_def Let_def setters)

lemma use_use_calls: "use_calls (use c s) = use_calls s @ [c]"
  by (simp add: use_def Let_def setters)

lemma use_current_camera:
  "ctx_current_camera (ctx (wins (use c s) (self_win (cams s c)))) = Some c"
  by (simp add: use_wins)

lemma use_other_window:
  "w \<noteq> self_win (cams s c) \<Longrightarrow> wins (use c s) w = wins s w"
  by (simp add: use_wins)

text \<open>
  \<open>use\<close> is the only assignment to the slot in the module, and it installs a camera on the
  camera's own window: the slot of a window holds after \<open>use\<close> what it held before or a
  camera that belongs to that window.
\<close>

lemma use_installs_on_own_window:
  assumes "ctx_current_camera (ctx (wins (use c s) w)) = Some k"
  shows "(k = c \<and> w = self_win (cams s c)) \<or> ctx_current_camera (ctx (wins s w)) = Some k"
  using assms by (cases "w = self_win (cams s c)") (simp_all add: use_wins)

section \<open>The coordinate transforms leave the store alone\<close>

lemma project_world: "snd (project c p s) = s"
  by (simp add: project_def split: option.splits sum.splits)

lemma unproject_world: "snd (unproject c q d s) = s"
  by (simp add: unproject_def split: option.splits sum.splits)

section \<open>The scope of \<open>activate\<close>\<close>


lemma activate_none:
  "ctx_current_camera (ctx (wins s (self_win (cams s A)))) = None \<Longrightarrow>
   activate A body s = (Inl AttributeError, snd (body A (use A s)))"
  by (simp add: activate_def Let_def split: prod.splits)

lemma activate_cases:
  "activate A body s =
     (case ctx_current_camera (ctx (wins s (self_win (cams s A)))) of
        None \<Rightarrow> (Inl AttributeError, snd (body A (use A s)))
      | Some p \<Rightarrow> (fst (body A (use A s)), use p (snd (body A (use A s)))))"
  by (simp add: activate_def Let_def split: prod.splits option.splits)




section \<open>What the constructor stores\<close>

lemma StaticCamera_fields:
  assumes "StaticCamera vm pm vp pj upj window s = (Inr c, s')"
  shows "target_window window s = Inr (self_win (cams s' c)) \<and>
         self_viewport (cams s' c) =
           (case vp of Some v \<Rightarrow> v | None \<Rightarrow> ctx_viewport (ctx (wins s (self_win (cams s' c))))) \<and>
         self_view (cams s' c) = vm \<and> self_projection (cams s' c) = pm \<and>
         self_project_method (cams s' c) = pj \<and> self_unproject_method (cams s' c) = upj"
  using assms by (auto simp: StaticCamera_def Let_def split: sum.splits option.splits)

lemma StaticCamera_alloc:
  assumes "StaticCamera vm pm vp pj upj window s = (Inr c, s')"
  shows "c = next_cam s \<and> next_cam s' = Suc c \<and> wins s' = wins s \<and>
         active_window s' = active_window s \<and> use_calls s' = use_calls s \<and>
         (\<forall>k. k \<noteq> c \<longrightarrow> cams s' k = cams s k)"
  using assms by (auto simp: StaticCamera_def Let_def split: sum.splits)

section \<open>Unconfigured transforms\<close>

lemma project_unconfigured:
  "self_project_method (cams s c) = None \<Longrightarrow>
   project c p s =
     (Inl (ValueError ''This Static Camera was not provided a project method at creation''), s)"
  by (simp add: project_def)

lemma unproject_unconfigured:
  "self_unproject_method (cams s c) = None \<Longrightarrow>
   unproject c q d s =
     (Inl (ValueError ''This Static Camera was not provided an unproject method at creation''), s)"
  by (simp add: unproject_def)

text \<open>
  Claim C2.  A camera that stores no project function raises the \<open>ValueError\<close> of line 64
  on \<open>project\<close>, and one that stores no unproject function the \<open>ValueError\<close> of line 90
  on \<open>unproject\<close>; the world after the call is the world before it, cameras and windows
  included.  A camera built by \<open>static_from_matrices\<close> without the function is such a
  camera.
\<close>

theorem unconfigured_transform_raises:
  "(self_project_method (cams s c) = None \<longrightarrow>
      project c p s =
        (Inl (ValueError ''This Static Camera was not provided a project method at creation''), s)) \<and>
   (self_unproject_method (cams s c) = None \<longrightarrow>
      unproject c q d s =
        (Inl (ValueError ''This Static Camera was not provided an unproject method at creation''), s)) \<and>
   (static_from_matrices view projection viewport window None um t = (Inr k, t') \<longrightarrow>
      project k p t' =
        (Inl (ValueError ''This Static Camera was not provided a project method at creation''), t')) \<and>
   (static_from_matrices view projection viewport window pm None t = (Inr k, t') \<longrightarrow>
      unproject k q d t' =
        (Inl (ValueError ''This Static Camera was not provided an unproject method at creation''), t'))"
proof (intro conjI impI)
  assume "static_from_matrices view projection viewport window None um t = (Inr k, t')"
  then have "self_project_method (cams t' k) = None"
    unfolding static_from_matrices_def by (rule StaticCamera_fields [THEN conjunct2, THEN conjunct2,
      THEN conjunct2, THEN conjunct2, THEN conjunct1])
  then show "project k p t' =
      (Inl (ValueError ''This Static Camera was not provided a project method at creation''), t')"
    by (rule project_unconfigured)
next
  assume "static_from_matrices view projection viewport window pm None t = (Inr k, t')"
  then have "self_unproject_method (cams t' k) = None"
    unfolding static_from_matrices_def using StaticCamera_fields by blast
  then show "unproject k q d t' =
      (Inl (ValueError ''This Static Camera was not provided an unproject method at creation''), t')"
    by (rule unproject_unconfigured)
qed (simp_all add: project_unconfigured unproject_unconfigured)



theorem unconfigured_transform_raises_witness:
  "self_project_method (cams (example_world (Some 2)) 0) = None \<and>
   project 0 [400, 300, 0] (example_world (Some 2)) =
     (Inl (ValueError ''This Static Camera was not provided a project method at creation''),
      example_world (Some 2)) \<and>
   self_unproject_method (cams (example_world (Some 2)) 0) = None \<and>
   unproject 0 (400, 300) None (example_world (Some 2)) =
     (Inl (ValueError ''This Static Camera was not provided an unproject method at creation''),
      example_world (Some 2)) \<and>
   fst (static_from_matrices [1] [2] None (Some 0) None None (example_world (Some 2))) = Inr 3 \<and>
   project 3 [400, 300, 0]
       (snd (static_from_matrices [1] [2] None (Some 0) None None (example_world (Some 2)))) =
     (Inl (ValueError ''This Static Camera was not provided a project method at creation''),
      snd (static_from_matrices [1] [2] None (Some 0) None None (example_world (Some 2)))) \<and>
   unproject 3 (400, 300) (Some 1)
       (snd (static_from_matrices [1] [2] None (Some 0) None None (example_world (Some 2)))) =
     (Inl (ValueError ''This Static Camera was not provided an unproject method at creation''),
      snd (static_from_matrices [1] [2] None (Some 0) None None (example_world (Some 2))))"
proof -
  let ?s = "example_world (Some 2)"
  let ?b = "static_from_matrices [1] [2] None (Some 0) None None ?s"
  have p0: "self_project_method (cams ?s 0) = None"
    and u0: "self_unproject_method (cams ?s 0) = None"
    by (simp_all add: example_defs)
  have f: "fst ?b = Inr 3"
    by (simp add: build_defs example_defs)
  then have b: "?b = (Inr 3, snd ?b)"
    by (simp add: prod_eq_iff)
  note T1 = unconfigured_transform_raises [of ?s 0 "[400, 300, 0]" "(400, 300)" None
      "[1]" "[2]" None "Some 0" None ?s 3 "snd ?b" None]
  note T2 = unconfigured_transform_raises [of ?s 0 "[400, 300, 0]" "(400, 300)" "Some 1"
      "[1]" "[2]" None "Some 0" None ?s 3 "snd ?b" None]
  from T1 T2 p0 u0 f b show ?thesis by simp
qed

section \<open>The viewport a helper stores\<close>

text \<open>
  A helper that returns a camera got its two matrices from the generators named in its
  source and handed them to the constructor.
\<close>

lemma static_from_orthographic_Inr:
  assumes "static_from_orthographic ext view orthographic window s = (Inr c, s')"
  shows "\<exists>vm pm. generate_view_matrix ext view = Inr vm \<and>
           generate_orthographic_matrix ext orthographic (data_zoom view) = Inr pm \<and>
           StaticCamera vm pm (data_viewport orthographic) (Some (project_orthographic ext))
             (Some (unproject_orthographic ext)) window s = (Inr c, s')"
  using assms by (auto simp: static_from_orthographic_def split: sum.splits)

lemma static_from_perspective_Inr:
  assumes "static_from_perspective ext view perspective window s = (Inr c, s')"
  shows "\<exists>vm pm. generate_view_matrix ext view = Inr vm \<and>
           generate_orthographic_matrix ext perspective (data_zoom view) = Inr pm \<and>
           StaticCamera vm pm (data_viewport perspective) (Some (project_perspective ext))
             (Some (unproject_perspective ext)) window s = (Inr c, s')"
  using assms by (auto simp: static_from_perspective_def split: sum.splits)

lemma static_from_raw_orthographic_Inr:
  assumes "static_from_raw_orthographic ext (p0, p1, p2, p3) near far zoom position up forward
             viewport window s = (Inr c, s')"
  shows "\<exists>vm pm. generate_view_matrix ext (CameraData position up forward zoom) = Inr vm \<and>
           generate_orthographic_matrix ext
             (OrthographicProjectionData p0 p1 p2 p3 near far
                (Some (case viewport of Some v \<Rightarrow> v | None \<Rightarrow> (0, 0, 0, 0)))) zoom = Inr pm \<and>
           StaticCamera vm pm viewport (Some (project_orthographic ext))
             (Some (unproject_orthographic ext)) window s = (Inr c, s')"
  using assms by (auto simp: static_from_raw_orthographic_def split: sum.splits)

lemma static_from_raw_perspective_Inr:
  assumes "static_from_raw_perspective ext aspect fov near far zoom position up forward
             viewport window s = (Inr c, s')"
  shows "\<exists>vm pm. generate_view_matrix ext (CameraData position up forward zoom) = Inr vm \<and>
           generate_perspective_matrix ext
             (PerspectiveProjectionData aspect fov near far
                (Some (case viewport of Some v \<Rightarrow> v | None \<Rightarrow> (0, 0, 0, 0)))) zoom = Inr pm \<and>
           StaticCamera vm pm viewport (Some (project_perspective ext))
             (Some (unproject_perspective ext)) window s = (Inr c, s')"
  using assms by (auto simp: static_from_raw_perspective_def split: sum.splits)

text \<open>
  Against claim C3 as stated: \<open>static_from_raw_orthographic\<close> and
  \<open>static_from_raw_perspective\<close>, called without a viewport for a window whose context has
  the viewport \<open>(0, 0, 800, 600)\<close>, return a camera that stores \<open>(0, 0, 800, 600)\<close>, not
  the zero rectangle.
\<close>

theorem raw_helpers_zero_viewport_counterexample:
  "fst (static_from_raw_orthographic example_externals (0, 800, 0, 600) (- 100) 100 1
          (0, 0, 0) (0, 1, 0) (0, 0, - 1) None (Some 0) (example_world (Some 2))) = Inr 3 \<and>
   self_viewport (cams (snd (static_from_raw_orthographic example_externals (0, 800, 0, 600)
          (- 100) 100 1 (0, 0, 0) (0, 1, 0) (0, 0, - 1) None (Some 0) (example_world (Some 2)))) 3)
     = (0, 0, 800, 600) \<and>
   self_viewport (cams (snd (static_from_raw_orthographic example_externals (0, 800, 0, 600)
          (- 100) 100 1 (0, 0, 0) (0, 1, 0) (0, 0, - 1) None (Some 0) (example_world (Some 2)))) 3)
     \<noteq> (0, 0, 0, 0) \<and>
   fst (static_from_raw_perspective example_externals 1 90 (- 100) 100 1
          (0, 0, 0) (0, 1, 0) (0, 0, - 1) None (Some 0) (example_world (Some 2))) = Inr 3 \<and>
   self_viewport (cams (snd (static_from_raw_perspective example_externals 1 90
          (- 100) 100 1 (0, 0, 0) (0, 1, 0) (0, 0, - 1) None (Some 0) (example_world (Some 2)))) 3)
     \<noteq> (0, 0, 0, 0)"
  by (simp add: build_defs example_defs)

text \<open>
  Claim C3, amended.  When no viewport is supplied (the argument is \<open>None\<close>; for the two
  structured helpers, the descriptor's viewport is \<open>None\<close>), the camera that any of the
  five helpers returns stores the current viewport of the context of its window, and that
  window is the one given or else the active one.  In the two raw helpers the zero
  rectangle is the viewport of the projection descriptor handed to the matrix generator,
  whose result the camera stores as its projection matrix.
\<close>

theorem viewport_default_is_context_viewport:
  "(static_from_orthographic ext view orthographic window s = (Inr c, s') \<and>
      data_viewport orthographic = None \<longrightarrow>
        target_window window s = Inr (self_win (cams s' c)) \<and>
        self_viewport (cams s' c) = ctx_viewport (ctx (wins s (self_win (cams s' c))))) \<and>
   (static_from_perspective ext view perspective window s = (Inr c, s') \<and>
      data_viewport perspective = None \<longrightarrow>
        target_window window s = Inr (self_win (cams s' c)) \<and>
        self_viewport (cams s' c) = ctx_viewport (ctx (wins s (self_win (cams s' c))))) \<and>
   (static_from_matrices vm pm None window pj upj s = (Inr c, s') \<longrightarrow>
        target_window window s = Inr (self_win (cams s' c)) \<and>
        self_viewport (cams s' c) = ctx_viewport (ctx (wins s (self_win (cams s' c))))) \<and>
   (static_from_raw_orthographic ext (p0, p1, p2, p3) near far zoom position up forward
        None window s = (Inr c, s') \<longrightarrow>
        target_window window s = Inr (self_win (cams s' c)) \<and>
        self_viewport (cams s' c) = ctx_viewport (ctx (wins s (self_win (cams s' c)))) \<and>
        generate_orthographic_matrix ext
          (OrthographicProjectionData p0 p1 p2 p3 near far (Some (0, 0, 0, 0))) zoom =
          Inr (self_projection (cams s' c))) \<and>
   (static_from_raw_perspective ext aspect fov near far zoom position up forward
        None window s = (Inr c, s') \<longrightarrow>
        target_window window s = Inr (self_win (cams s' c)) \<and>
        self_viewport (cams s' c) = ctx_viewport (ctx (wins s (self_win (cams s' c)))) \<and>
        generate_perspective_matrix ext
          (PerspectiveProjectionData aspect fov near far (Some (0, 0, 0, 0))) zoom =
          Inr (self_projection (cams s' c)))"
proof (intro conjI impI; (elim conjE)?)
  assume "static_from_orthographic ext view orthographic window s = (Inr c, s')"
    and none: "data_viewport orthographic = None"
  then obtain vm' pm' where
    "StaticCamera vm' pm' (data_viewport orthographic) (Some (project_orthographic ext))
       (Some (unproject_orthographic ext)) window s = (Inr c, s')"
    using static_from_orthographic_Inr by blast
  from StaticCamera_fields [OF this] none
  show "target_window window s = Inr (self_win (cams s' c))"
    and "self_viewport (cams s' c) = ctx_viewport (ctx (wins s (self_win (cams s' c))))"
    by simp_all
next
  assume "static_from_perspective ext view perspective window s = (Inr c, s')"
    and none: "data_viewport perspective = None"
  then obtain vm' pm' where
    "StaticCamera vm' pm' (data_viewport perspective) (Some (project_perspective ext))
       (Some (unproject_perspective ext)) window s = (Inr c, s')"
    using static_from_perspective_Inr by blast
  from StaticCamera_fields [OF this] none
  show "target_window window s = Inr (self_win (cams s' c))"
    and "self_viewport (cams s' c) = ctx_viewport (ctx (wins s (self_win (cams s' c))))"
    by simp_all
next
  assume "static_from_matrices vm pm None window pj upj s = (Inr c, s')"
  then have "StaticCamera vm pm None pj upj window s = (Inr c, s')"
    by (simp add: static_from_matrices_def)
  from StaticCamera_fields [OF this]
  show "target_window window s = Inr (self_win (cams s' c))"
    and "self_viewport (cams s' c) = ctx_viewport (ctx (wins s (self_win (cams s' c))))"
    by simp_all
next
  assume "static_from_raw_orthographic ext (p0, p1, p2, p3) near far zoom position up forward
        None window s = (Inr c, s')"
  from static_from_raw_orthographic_Inr [OF this] obtain vm' pm' where
    g: "generate_orthographic_matrix ext
          (OrthographicProjectionData p0 p1 p2 p3 near far (Some (0, 0, 0, 0))) zoom = Inr pm'"
    and b: "StaticCamera vm' pm' None (Some (project_orthographic ext))
       (Some (unproject_orthographic ext)) window s = (Inr c, s')"
    by auto
  from StaticCamera_fields [OF b] g
  show "target_window window s = Inr (self_win (cams s' c))"
    and "self_viewport (cams s' c) = ctx_viewport (ctx (wins s (self_win (cams s' c))))"
    and "generate_orthographic_matrix ext
          (OrthographicProjectionData p0 p1 p2 p3 near far (Some (0, 0, 0, 0))) zoom =
          Inr (self_projection (cams s' c))"
    by simp_all
next
  assume "static_from_raw_perspective ext aspect fov near far zoom position up forward
        None window s = (Inr c, s')"
  from static_from_raw_perspective_Inr [OF this] obtain vm' pm' where
    g: "generate_perspective_matrix ext
          (PerspectiveProjectionData aspect fov near far (Some (0, 0, 0, 0))) zoom = Inr pm'"
    and b: "StaticCamera vm' pm' None (Some (project_perspective ext))
       (Some (unproject_perspective ext)) window s = (Inr c, s')"
    by auto
  from StaticCamera_fields [OF b] g
  show "target_window window s = Inr (self_win (cams s' c))"
    and "self_viewport (cams s' c) = ctx_viewport (ctx (wins s (self_win (cams s' c))))"
    and "generate_perspective_matrix ext
          (PerspectiveProjectionData aspect fov near far (Some (0, 0, 0, 0))) zoom =
          Inr (self_projection (cams s' c))"
    by simp_all
qed


theorem viewport_default_is_context_viewport_witness:
  "fst (static_from_orthographic example_externals (CameraData (0, 0, 0) (0, 1, 0) (0, 0, - 1) 1)
          (OrthographicProjectionData 0 800 0 600 (- 100) 100 None) (Some 0)
          (example_world (Some 2))) = Inr 3 \<and>
   self_viewport (cams (snd (static_from_orthographic example_externals
          (CameraData (0, 0, 0) (0, 1, 0) (0, 0, - 1) 1)
          (OrthographicProjectionData 0 800 0 600 (- 100) 100 None) (Some 0)
          (example_world (Some 2)))) 3) = (0, 0, 800, 600) \<and>
   fst (static_from_perspective example_externals (CameraData (0, 0, 0) (0, 1, 0) (0, 0, - 1) 1)
          (PerspectiveProjectionData 1 90 1 1000 None) None
          (example_world (Some 2))) = Inr 3 \<and>
   self_viewport (cams (snd (static_from_perspective example_externals
          (CameraData (0, 0, 0) (0, 1, 0) (0, 0, - 1) 1)
          (PerspectiveProjectionData 1 90 1 1000 None) None
          (example_world (Some 2)))) 3) = (0, 0, 800, 600) \<and>
   fst (static_from_matrices [1] [2] None (Some 0) None None (example_world (Some 2))) = Inr 3 \<and>
   self_viewport (cams (snd (static_from_matrices [1] [2] None (Some 0) None None
          (example_world (Some 2)))) 3) = (0, 0, 800, 600) \<and>
   fst (static_from_raw_orthographic example_externals (0, 800, 0, 600) (- 100) 100 1
          (0, 0, 0) (0, 1, 0) (0, 0, - 1) None (Some 0) (example_world (Some 2))) = Inr 3 \<and>
   self_viewport (cams (snd (static_from_raw_orthographic example_externals (0, 800, 0, 600)
          (- 100) 100 1 (0, 0, 0) (0, 1, 0) (0, 0, - 1) None (Some 0)
          (example_world (Some 2)))) 3) = (0, 0, 800, 600) \<and>
   fst (static_from_raw_perspective example_externals 1 90 (- 100) 100 1
          (0, 0, 0) (0, 1, 0) (0, 0, - 1) None (Some 0) (example_world (Some 2))) = Inr 3 \<and>
   self_viewport (cams (snd (static_from_raw_perspective example_externals 1 90
          (- 100) 100 1 (0, 0, 0) (0, 1, 0) (0, 0, - 1) None (Some 0)
          (example_world (Some 2)))) 3) = (0, 0, 800, 600)"
proof -
  let ?s = "example_world (Some 2)"
  let ?view = "CameraData (0, 0, 0) (0, 1, 0) (0, 0, - 1) 1"
  let ?b1 = "static_from_orthographic example_externals ?view
      (OrthographicProjectionData 0 800 0 600 (- 100) 100 None) (Some 0) ?s"
  let ?b2 = "static_from_perspective example_externals ?view
      (PerspectiveProjectionData 1 90 1 1000 None) None ?s"
  let ?b3 = "static_from_matrices [1] [2] None (Some 0) None None ?s"
  let ?b4 = "static_from_raw_orthographic example_externals (0, 800, 0, 600) (- 100) 100 1
      (0, 0, 0) (0, 1, 0) (0, 0, - 1) None (Some 0) ?s"
  let ?b5 = "static_from_raw_perspective example_externals 1 90 (- 100) 100 1
      (0, 0, 0) (0, 1, 0) (0, 0, - 1) None (Some 0) ?s"
  have vp: "ctx_viewport (ctx (wins ?s w)) = (0, 0, 800, 600)" for w
    by (simp add: example_defs)
  have f1: "fst ?b1 = Inr 3" and f2: "fst ?b2 = Inr 3" and f3: "fst ?b3 = Inr 3"
    and f4: "fst ?b4 = Inr 3" and f5: "fst ?b5 = Inr 3"
    by (simp_all add: build_defs example_defs)
  have e1: "?b1 = (Inr 3, snd ?b1)" using f1 by (simp add: prod_eq_iff)
  have e2: "?b2 = (Inr 3, snd ?b2)" using f2 by (simp add: prod_eq_iff)
  have e3: "?b3 = (Inr 3, snd ?b3)" using f3 by (simp add: prod_eq_iff)
  have e4: "?b4 = (Inr 3, snd ?b4)" using f4 by (simp add: prod_eq_iff)
  have e5: "?b5 = (Inr 3, snd ?b5)" using f5 by (simp add: prod_eq_iff)
  have v1: "self_viewport (cams (snd ?b1) 3) = (0, 0, 800, 600)"
    using viewport_default_is_context_viewport [where ext = example_externals and view = ?view
        and orthographic = "OrthographicProjectionData 0 800 0 600 (- 100) 100 None"
        and window = "Some 0" and s = ?s and c = 3 and s' = "snd ?b1"] e1 vp
    by simp
  have v2: "self_viewport (cams (snd ?b2) 3) = (0, 0, 800, 600)"
    using viewport_default_is_context_viewport [where ext = example_externals and view = ?view
        and perspective = "PerspectiveProjectionData 1 90 1 1000 None"
        and window = None and s = ?s and c = 3 and s' = "snd ?b2"] e2 vp
    by simp
  have v3: "self_viewport (cams (snd ?b3) 3) = (0, 0, 800, 600)"
    using viewport_default_is_context_viewport [where vm = "[1]" and pm = "[2]"
        and pj = None and upj = None
        and window = "Some 0" and s = ?s and c = 3 and s' = "snd ?b3"] e3 vp
    by simp
  have v4: "self_viewport (cams (snd ?b4) 3) = (0, 0, 800, 600)"
    using viewport_default_is_context_viewport [where ext = example_externals
        and ?p0.0 = 0 and ?p1.0 = 800 and ?p2.0 = 0 and ?p3.0 = 600 and near = "- 100" and far = 100
        and zoom = 1 and position = "(0, 0, 0)" and up = "(0, 1, 0)" and forward = "(0, 0, - 1)"
        and window = "Some 0" and s = ?s and c = 3 and s' = "snd ?b4"] e4 vp
    by simp
  have v5: "self_viewport (cams (snd ?b5) 3) = (0, 0, 800, 600)"
    using viewport_default_is_context_viewport [where ext = example_externals
        and aspect = 1 and fov = 90 and near = "- 100" and far = 100
        and zoom = 1 and position = "(0, 0, 0)" and up = "(0, 1, 0)" and forward = "(0, 0, - 1)"
        and window = "Some 0" and s = ?s and c = 3 and s' = "snd ?b5"] e5 vp
    by simp
  from f1 f2 f3 f4 f5 v1 v2 v3 v4 v5 show ?thesis by blast
qed

section \<open>The structured perspective helper\<close>

text \<open>
  Claim C4.  A camera returned by \<open>static_from_perspective\<close> stores \<open>project_perspective\<close>
  and \<open>unproject_perspective\<close>, and its projection matrix is the result of
  \<open>generate_orthographic_matrix\<close> on the descriptor and the zoom of the view.  The helper
  does not call \<open>generate_perspective_matrix\<close>: replacing that function by any other
  changes nothing of what the helper returns.
\<close>

theorem static_from_perspective_uses_orthographic_matrix:
  "(static_from_perspective ext view perspective window s = (Inr c, s') \<longrightarrow>
      self_project_method (cams s' c) = Some (project_perspective ext) \<and>
      self_unproject_method (cams s' c) = Some (unproject_perspective ext) \<and>
      generate_orthographic_matrix ext perspective (data_zoom view) =
        Inr (self_projection (cams s' c))) \<and>
   static_from_perspective (ext\<lparr>generate_perspective_matrix := g\<rparr>) view perspective window s =
     static_from_perspective ext view perspective window s"
proof (intro conjI impI)
  assume "static_from_perspective ext view perspective window s = (Inr c, s')"
  from static_from_perspective_Inr [OF this] obtain vm pm where
    g: "generate_orthographic_matrix ext perspective (data_zoom view) = Inr pm"
    and b: "StaticCamera vm pm (data_viewport perspective) (Some (project_perspective ext))
       (Some (unproject_perspective ext)) window s = (Inr c, s')"
    by auto
  from StaticCamera_fields [OF b] g
  show "self_project_method (cams s' c) = Some (project_perspective ext)"
    and "self_unproject_method (cams s' c) = Some (unproject_perspective ext)"
    and "generate_orthographic_matrix ext perspective (data_zoom view) =
        Inr (self_projection (cams s' c))"
    by simp_all
next
  show "static_from_perspective (ext\<lparr>generate_perspective_matrix := g\<rparr>) view perspective window s =
     static_from_perspective ext view perspective window s"
    by (simp add: static_from_perspective_def split: sum.splits)
qed

theorem static_from_perspective_uses_orthographic_matrix_witness:
  "fst (static_from_perspective example_externals (CameraData (0, 0, 0) (0, 1, 0) (0, 0, - 1) 1)
          (PerspectiveProjectionData 1 90 1 1000 (Some (0, 0, 800, 600))) (Some 0)
          (example_world (Some 2))) = Inr 3 \<and>
   self_project_method (cams (snd (static_from_perspective example_externals
          (CameraData (0, 0, 0) (0, 1, 0) (0, 0, - 1) 1)
          (PerspectiveProjectionData 1 90 1 1000 (Some (0, 0, 800, 600))) (Some 0)
          (example_world (Some 2)))) 3) = Some (project_perspective example_externals) \<and>
   self_projection (cams (snd (static_from_perspective example_externals
          (CameraData (0, 0, 0) (0, 1, 0) (0, 0, - 1) 1)
          (PerspectiveProjectionData 1 90 1 1000 (Some (0, 0, 800, 600))) (Some 0)
          (example_world (Some 2)))) 3) = [2] \<and>
   generate_orthographic_matrix example_externals
          (PerspectiveProjectionData 1 90 1 1000 (Some (0, 0, 800, 600))) 1 = Inr [2] \<and>
   generate_perspective_matrix example_externals
          (PerspectiveProjectionData 1 90 1 1000 (Some (0, 0, 800, 600))) 1 = Inr [3]"
proof -
  let ?s = "example_world (Some 2)"
  let ?view = "CameraData (0, 0, 0) (0, 1, 0) (0, 0, - 1) 1"
  let ?d = "PerspectiveProjectionData 1 90 1 1000 (Some (0, 0, 800, 600))"
  let ?b = "static_from_perspective example_externals ?view ?d (Some 0) ?s"
  have f: "fst ?b = Inr 3"
    by (simp add: build_defs example_defs)
  then have e: "?b = (Inr 3, snd ?b)"
    by (simp add: prod_eq_iff)
  have o: "generate_orthographic_matrix example_externals ?d 1 = Inr [2]"
    and p: "generate_perspective_matrix example_externals ?d 1 = Inr [3]"
    by (simp_all add: example_defs)
  from static_from_perspective_uses_orthographic_matrix [where ext = example_externals
      and view = ?view and perspective = ?d and window = "Some 0" and s = ?s and c = 3
      and s' = "snd ?b"] e o
  have "self_project_method (cams (snd ?b) 3) = Some (project_perspective example_externals)"
    and "self_projection (cams (snd ?b) 3) = [2]"
    by simp_all
  with f o p show ?thesis by blast
qed

section \<open>Coordinates of two components\<close>

lemma project_short_coordinate:
  "self_project_method (cams s c) = Some f \<Longrightarrow> length p < 3 \<Longrightarrow>
   project c p s = (Inl IndexError, s)"
  by (simp add: project_def getitem_def split: sum.splits)

text \<open>
  Claim C5 fails on the code.  Camera 1 of the concrete world has a project function.  On
  the coordinate \<open>(400, 300)\<close> the subscription \<open>world_coordinate[2]\<close> of line 67 raises
  \<open>IndexError\<close>; on \<open>(400, 300, 0)\<close> the call returns \<open>(400, 300)\<close>.
\<close>

theorem project_two_components_raises_IndexError:
  "self_project_method (cams (example_world (Some 2)) 1) =
     Some (project_orthographic example_externals) \<and>
   project 1 [400, 300] (example_world (Some 2)) = (Inl IndexError, example_world (Some 2)) \<and>
   project 1 [400, 300, 0] (example_world (Some 2)) = (Inr (400, 300), example_world (Some 2))"
  by (simp add: project_def getitem_def example_defs)


section \<open>Calling \<open>use\<close> twice\<close>

text \<open>
  Claim C7.  After \<open>c.use()\<close>, a second \<open>c.use()\<close> leaves every window as it is (its current
  camera and the viewport, projection matrix and view matrix of its context), and the
  cameras and the window registry as well.
\<close>

theorem use_idempotent:
  "wins (use c (use c s)) = wins (use c s) \<and>
   cams (use c (use c s)) = cams (use c s) \<and>
   next_cam (use c (use c s)) = next_cam (use c s) \<and>
   active_window (use c (use c s)) = active_window (use c s)"
  by (simp add: use_wins use_cams use_next_cam use_active_window)

theorem use_idempotent_witness:
  "wins (use 1 (use 1 (example_world (Some 2)))) = wins (use 1 (example_world (Some 2))) \<and>
   ctx_current_camera (ctx (wins (use 1 (use 1 (example_world (Some 2)))) 0)) = Some 1 \<and>
   ctx_viewport (ctx (wins (use 1 (use 1 (example_world (Some 2)))) 0)) = (0, 0, 1, 1) \<and>
   ctx_projection_matrix (ctx (wins (use 1 (use 1 (example_world (Some 2)))) 0)) = [2] \<and>
   ctx_view_matrix (ctx (wins (use 1 (use 1 (example_world (Some 2)))) 0)) = [1]"
proof -
  have "wins (use 1 (use 1 (example_world (Some 2)))) = wins (use 1 (example_world (Some 2)))"
    using use_idempotent [of 1 "example_world (Some 2)"] by blast
  then show ?thesis
    by (simp add: use_wins example_defs)
qed

section \<open>The fields of the context that the class touches\<close>

lemma StaticCamera_wins: "wins (snd (StaticCamera vm pm vp pj upj window s)) = wins s"
  by (simp add: StaticCamera_def Let_def split: sum.splits)

lemma project_ignores_windows:
  "project c p (s\<lparr>wins := W\<rparr>) = (fst (project c p s), s\<lparr>wins := W\<rparr>)"
  by (simp add: project_def split: option.splits sum.splits)

lemma unproject_ignores_windows:
  "unproject c q d (s\<lparr>wins := W\<rparr>) = (fst (unproject c q d s), s\<lparr>wins := W\<rparr>)"
  by (simp add: unproject_def split: option.splits sum.splits)

lemma replace_other_frame:
  "cams (replace_other g s) = cams s"
  "ctx_current_camera (ctx (wins (replace_other g s) w)) = ctx_current_camera (ctx (wins s w))"
  "ctx_viewport (ctx (wins (replace_other g s) w)) = ctx_viewport (ctx (wins s w))"
  by (simp_all add: replace_other_def)

lemma use_replace_other: "use c (replace_other g s) = replace_other g (use c s)"
  by (simp add: use_def Let_def setters replace_other_def fun_eq_iff)

lemma project_replace_other:
  "project c p (replace_other g s) = (fst (project c p s), replace_other g s)"
  unfolding replace_other_def by (rule project_ignores_windows)

lemma unproject_replace_other:
  "unproject c q d (replace_other g s) = (fst (unproject c q d s), replace_other g s)"
  unfolding replace_other_def by (rule unproject_ignores_windows)

lemma StaticCamera_replace_other:
  "StaticCamera vm pm vp pj upj window (replace_other g s) =
     (fst (StaticCamera vm pm vp pj upj window s),
      replace_other g (snd (StaticCamera vm pm vp pj upj window s)))"
  by (simp add: StaticCamera_def Let_def target_window_def get_window_def replace_other_def
      split: sum.splits option.splits)

lemma activate_replace_other:
  assumes "\<And>t. body c (replace_other g t) = (fst (body c t), replace_other g (snd (body c t)))"
  shows "activate c body (replace_other g s) =
     (fst (activate c body s), replace_other g (snd (activate c body s)))"
  by (simp add: activate_cases replace_other_frame use_replace_other assms split: option.splits)

lemma exec_replace_other:
  "exec x (replace_other g s) = (fst (exec x s), replace_other g (snd (exec x s)))"
  "exec_list xs (replace_other g s) =
     (fst (exec_list xs s), replace_other g (snd (exec_list xs s)))"
proof (induction x s and xs s rule: exec_exec_list.induct)
  case (1 c s)
  show ?case by (simp add: use_replace_other)
next
  case (2 c body s)
  then show ?case by (simp add: activate_replace_other)
next
  case (3 c p s)
  obtain r t where run: "project c p s = (r, t)"
    by (cases "project c p s")
  with project_world [of c p s] have "t = s"
    by simp
  with run project_replace_other [of c p g s] show ?case
    by (cases r) simp_all
next
  case (4 c p d s)
  obtain r t where run: "unproject c p d s = (r, t)"
    by (cases "unproject c p d s")
  with unproject_world [of c p d s] have "t = s"
    by simp
  with run unproject_replace_other [of c p d g s] show ?case
    by (cases r) simp_all
next
  case (5 s)
  show ?case by simp
next
  case (6 x xs s)
  show ?case
  proof (cases "exec x s")
    case (Pair r s')
    with "6.IH"(1) have step: "exec x (replace_other g s) = (r, replace_other g s')"
      by simp
    show ?thesis
    proof (cases r)
      case (Inl e)
      with Pair step show ?thesis by simp
    next
      case (Inr u)
      with Pair step "6.IH"(2) [of r s' u] show ?thesis by simp
    qed
  qed
qed

text \<open>
  Claim C8.  \<open>use\<close> writes four fields of the context of the camera's window: the
  current-camera slot (this camera) and the viewport, projection matrix and view matrix
  (the camera's stored values).  It leaves the other state of that context, every other
  window, the cameras and the registry as they were.  No operation of the class reads or
  writes the other state: \<open>use\<close>, the constructor and every sequence of method calls
  (scopes of \<open>activate\<close> included) give the same result and the same effect whatever that
  state is; \<open>project\<close> and \<open>unproject\<close> read and write no field of any window at all; the
  constructor writes none; and \<open>activate\<close> reads the current-camera slot, one of the four,
  and writes through \<open>use\<close> only.
\<close>

theorem use_writes_four_fields:
  "wins (use c s) =
     (wins s)(self_win (cams s c) :=
        \<lparr>ctx = \<lparr>ctx_current_camera = Some c,
                ctx_viewport = self_viewport (cams s c),
                ctx_projection_matrix = self_projection (cams s c),
                ctx_view_matrix = self_view (cams s c),
                ctx_other = ctx_other (ctx (wins s (self_win (cams s c))))\<rparr>\<rparr>) \<and>
   cams (use c s) = cams s \<and> next_cam (use c s) = next_cam s \<and>
   active_window (use c s) = active_window s \<and>
   use c (replace_other g s) = replace_other g (use c s) \<and>
   project c p (s\<lparr>wins := W\<rparr>) = (fst (project c p s), s\<lparr>wins := W\<rparr>) \<and>
   unproject c q d (s\<lparr>wins := W\<rparr>) = (fst (unproject c q d s), s\<lparr>wins := W\<rparr>) \<and>
   wins (snd (StaticCamera vm pm vp pj upj window s)) = wins s \<and>
   StaticCamera vm pm vp pj upj window (replace_other g s) =
     (fst (StaticCamera vm pm vp pj upj window s),
      replace_other g (snd (StaticCamera vm pm vp pj upj window s))) \<and>
   activate c body s =
     (case ctx_current_camera (ctx (wins s (self_win (cams s c)))) of
        None \<Rightarrow> (Inl AttributeError, snd (body c (use c s)))
      | Some p \<Rightarrow> (fst (body c (use c s)), use p (snd (body c (use c s))))) \<and>
   exec_list calls (replace_other g s) =
     (fst (exec_list calls s), replace_other g (snd (exec_list calls s)))"
  using use_wins [of c s] activate_cases [of c body s] use_replace_other [of c g s]
    StaticCamera_replace_other [of vm pm vp pj upj window g s]
    exec_replace_other(2) [of calls g s]
  by (simp only: use_cams use_next_cam use_active_window project_ignores_windows
      unproject_ignores_windows StaticCamera_wins simp_thms)

theorem use_writes_four_fields_witness:
  "ctx_current_camera (ctx (wins (use 1 (example_world (Some 2))) 0)) = Some 1 \<and>
   ctx_viewport (ctx (wins (use 1 (example_world (Some 2))) 0)) = (0, 0, 1, 1) \<and>
   ctx_projection_matrix (ctx (wins (use 1 (example_world (Some 2))) 0)) = [2] \<and>
   ctx_view_matrix (ctx (wins (use 1 (example_world (Some 2))) 0)) = [1] \<and>
   ctx_other (ctx (wins (use 1 (example_world (Some 2))) 0)) = 7 \<and>
   wins (use 1 (example_world (Some 2))) 5 = wins (example_world (Some 2)) 5 \<and>
   use 1 (replace_other (\<lambda>_. 9) (example_world (Some 2))) =
     replace_other (\<lambda>_. 9) (use 1 (example_world (Some 2))) \<and>
   ctx_other (ctx (wins (use 1 (replace_other (\<lambda>_. 9) (example_world (Some 2)))) 0)) = 9"
proof -
  let ?s = "example_world (Some 2)"
  note T = use_writes_four_fields [of 1 ?s "\<lambda>_. 9"]
  from T have w: "wins (use 1 ?s) =
     (wins ?s)(self_win (cams ?s 1) :=
        \<lparr>ctx = \<lparr>ctx_current_camera = Some 1,
                ctx_viewport = self_viewport (cams ?s 1),
                ctx_projection_matrix = self_projection (cams ?s 1),
                ctx_view_matrix = self_view (cams ?s 1),
                ctx_other = ctx_other (ctx (wins ?s (self_win (cams ?s 1))))\<rparr>\<rparr>)"
    and r: "use 1 (replace_other (\<lambda>_. 9) ?s) = replace_other (\<lambda>_. 9) (use 1 ?s)"
    by blast+
  have o: "ctx_other (ctx (wins (replace_other (\<lambda>_. 9) (use 1 ?s)) 0)) = (9::nat)"
    by (simp add: replace_other_def)
  from w r o show ?thesis
    by (simp add: example_defs)
qed

section \<open>The stored matrices and viewport are never written\<close>

lemma activate_cams:
  assumes "\<And>t. cams (snd (body c t)) = cams t"
  shows "cams (snd (activate c body s)) = cams s"
  using assms by (simp add: activate_cases use_cams split: option.splits)

lemma exec_cams:
  "cams (snd (exec x s)) = cams s"
  "cams (snd (exec_list xs s)) = cams s"
proof (induction x s and xs s rule: exec_exec_list.induct)
  case (1 c s)
  show ?case by (simp add: use_cams)
next
  case (2 c body s)
  then show ?case by (simp add: activate_cams)
next
  case (3 c p s)
  have "snd (exec (Project c p) s) = snd (project c p s)"
    by (simp split: prod.splits sum.splits)
  then show ?case by (simp only: project_world)
next
  case (4 c p d s)
  have "snd (exec (Unproject c p d) s) = snd (unproject c p d s)"
    by (simp split: prod.splits sum.splits)
  then show ?case by (simp only: unproject_world)
next
  case (5 s)
  show ?case by simp
next
  case (6 x xs s)
  show ?case
  proof (cases "exec x s")
    case (Pair r s')
    with "6.IH"(1) have c: "cams s' = cams s" by simp
    show ?thesis
    proof (cases r)
      case (Inl e)
      with Pair c show ?thesis by simp
    next
      case (Inr u)
      with Pair "6.IH"(2) [of r s' u] c show ?thesis by simp
    qed
  qed
qed

text \<open>
  Claim C9.  None of \<open>use\<close>, \<open>project\<close>, \<open>unproject\<close> and \<open>activate\<close> (around a body that
  writes no camera) changes a camera object, and neither does any sequence of such calls,
  nested scopes included.  After any such sequence a camera still has the view matrix, the
  projection matrix and the viewport that its constructor stored.
\<close>

theorem methods_keep_camera_fields:
  "cams (use c s) = cams s \<and>
   cams (snd (project c p s)) = cams s \<and>
   cams (snd (unproject c q d s)) = cams s \<and>
   ((\<forall>t. cams (snd (body c t)) = cams t) \<longrightarrow> cams (snd (activate c body s)) = cams s) \<and>
   cams (snd (exec_list calls s)) = cams s \<and>
   (StaticCamera vm pm vp pj upj window s = (Inr k, s') \<longrightarrow>
      self_view (cams (snd (exec_list calls s')) k) = vm \<and>
      self_projection (cams (snd (exec_list calls s')) k) = pm \<and>
      self_viewport (cams (snd (exec_list calls s')) k) =
        (case vp of Some v \<Rightarrow> v | None \<Rightarrow> ctx_viewport (ctx (wins s (self_win (cams s' k))))))"
proof (intro conjI impI)
  assume "\<forall>t. cams (snd (body c t)) = cams t"
  then show "cams (snd (activate c body s)) = cams s"
    by (simp add: activate_cams)
next
  assume b: "StaticCamera vm pm vp pj upj window s = (Inr k, s')"
  from StaticCamera_fields [OF b]
  show "self_view (cams (snd (exec_list calls s')) k) = vm"
    and "self_projection (cams (snd (exec_list calls s')) k) = pm"
    and "self_viewport (cams (snd (exec_list calls s')) k) =
        (case vp of Some v \<Rightarrow> v | None \<Rightarrow> ctx_viewport (ctx (wins s (self_win (cams s' k)))))"
    by (simp_all add: exec_cams)
qed (simp_all add: use_cams project_world unproject_world exec_cams)


theorem methods_keep_camera_fields_witness:
  "fst (StaticCamera [7] [8] None (Some (project_orthographic example_externals))
          (Some (unproject_orthographic example_externals)) (Some 0)
          (example_world (Some 2))) = Inr 3 \<and>
   fst (exec_list
       [Use 3, Activate 3 [Project 3 [1, 2, 0], Use 1], Unproject 3 (1, 2) None]
       (snd (StaticCamera [7] [8] None (Some (project_orthographic example_externals))
          (Some (unproject_orthographic example_externals)) (Some 0)
          (example_world (Some 2))))) = Inr () \<and>
   self_view (cams (snd (exec_list
       [Use 3, Activate 3 [Project 3 [1, 2, 0], Use 1], Unproject 3 (1, 2) None]
       (snd (StaticCamera [7] [8] None (Some (project_orthographic example_externals))
          (Some (unproject_orthographic example_externals)) (Some 0)
          (example_world (Some 2)))))) 3) = [7] \<and>
   self_projection (cams (snd (exec_list
       [Use 3, Activate 3 [Project 3 [1, 2, 0], Use 1], Unproject 3 (1, 2) None]
       (snd (StaticCamera [7] [8] None (Some (project_orthographic example_externals))
          (Some (unproject_orthographic example_externals)) (Some 0)
          (example_world (Some 2)))))) 3) = [8] \<and>
   self_viewport (cams (snd (exec_list
       [Use 3, Activate 3 [Project 3 [1, 2, 0], Use 1], Unproject 3 (1, 2) None]
       (snd (StaticCamera [7] [8] None (Some (project_orthographic example_externals))
          (Some (unproject_orthographic example_externals)) (Some 0)
          (example_world (Some 2)))))) 3) = (0, 0, 800, 600) \<and>
   cams (snd (activate 0 (\<lambda>_ t. (Inl (OtherError ''boom''), use 1 t)) (example_world (Some 2)))) =
     cams (example_world (Some 2))"
proof -
  let ?s = "example_world (Some 2)"
  let ?pj = "Some (project_orthographic example_externals)"
  let ?upj = "Some (unproject_orthographic example_externals)"
  let ?b = "StaticCamera [7] [8] None ?pj ?upj (Some 0) ?s"
  let ?calls = "[Use 3, Activate 3 [Project 3 [1, 2, 0], Use 1], Unproject 3 (1, 2) None]"
  let ?body = "\<lambda>(_::cam_ref) t. (Inl (OtherError ''boom'') :: error + unit, use 1 t)"
  have f: "fst ?b = Inr 3"
    by (simp add: build_defs example_defs)
  then have e: "?b = (Inr 3, snd ?b)"
    by (simp add: prod_eq_iff)
  have body: "\<forall>t. cams (snd (?body 0 t)) = cams t"
    by (simp add: use_cams)
  have vp: "ctx_viewport (ctx (wins ?s w)) = (0, 0, 800, 600)" for w
    by (simp add: example_defs)
  have fld: "self_project_method (cams (snd ?b) 3) = ?pj"
    "self_unproject_method (cams (snd ?b) 3) = ?upj"
    using StaticCamera_fields [of "[7]" "[8]" None ?pj ?upj "Some 0" ?s 3 "snd ?b"] e
    by simp_all
  have slot: "ctx_current_camera (ctx (wins (use 3 (snd ?b)) (self_win (cams (use 3 (snd ?b)) 3))))
      = Some 3"
    using use_current_camera [of 3 "snd ?b"] by (simp add: use_cams)
  have pr: "project 3 [1, 2, 0] t = (Inr (1, 2), t)" if "cams t = cams (snd ?b)" for t
    using that fld by (simp add: project_def getitem_def example_defs)
  have un: "unproject 3 (1, 2) None t = (Inr (1, 2, 0), t)" if "cams t = cams (snd ?b)" for t
    using that fld by (simp add: unproject_def example_defs)
  have run: "fst (exec_list ?calls (snd ?b)) = Inr ()"
    using slot by (simp add: activate_cases pr un use_cams)
  note T = methods_keep_camera_fields [where c = 0 and s = ?s and body = ?body
      and calls = ?calls and vm = "[7]" and pm = "[8]" and vp = None and pj = ?pj and upj = ?upj
      and window = "Some 0" and k = 3 and s' = "snd ?b" and p = "[]" and q = "(0, 0)"
      and d = None]
  from T body have scope: "cams (snd (activate 0 ?body ?s)) = cams ?s"
    by blast
  from T e have kept: "self_view (cams (snd (exec_list ?calls (snd ?b))) 3) = [7] \<and>
      self_projection (cams (snd (exec_list ?calls (snd ?b))) 3) = [8] \<and>
      self_viewport (cams (snd (exec_list ?calls (snd ?b))) 3) =
        (case None of Some v \<Rightarrow> v
         | None \<Rightarrow> ctx_viewport (ctx (wins ?s (self_win (cams (snd ?b) 3)))))"
    by blast
  from f run scope kept vp show ?thesis
    by (simp del: exec.simps exec_list.simps)
qed

section \<open>One slot for the current camera\<close>

text \<open>
  Against claim C10 as stated: the context of window 0 holds camera 2; after \<open>cam0.use()\<close>
  it holds camera 0.  \<open>use\<close> does write the slot that \<open>activate\<close> reads.
\<close>

theorem use_writes_context_camera_counterexample:
  "self_win (cams (example_world (Some 2)) 0) = 0 \<and>
   ctx_current_camera (ctx (wins (example_world (Some 2)) 0)) = Some 2 \<and>
   ctx_current_camera (ctx (wins (use 0 (example_world (Some 2))) 0)) = Some 0 \<and>
   ctx_current_camera (ctx (wins (use 0 (example_world (Some 2))) 0)) \<noteq>
     ctx_current_camera (ctx (wins (example_world (Some 2)) 0))"
  by (simp add: use_wins example_defs)

text \<open>
  Claim C10, amended.  The slot that \<open>use\<close> writes is the slot that \<open>activate\<close> reads:
  \<open>c.use()\<close> stores \<open>c\<close> in the current-camera slot of the context of \<open>c\<close>'s window and
  leaves the slot of every other window as it was; a scope of \<open>A.activate()\<close> entered after
  \<open>c.use()\<close>, for a camera \<open>A\<close> of the same window, ends by re-installing \<open>c\<close>, and with an
  empty body the calls of \<open>use\<close> are \<open>c\<close>, \<open>A\<close>, \<open>c\<close>.
\<close>

theorem use_and_activate_share_camera_slot:
  "ctx_current_camera (ctx (wins (use c s) (self_win (cams s c)))) = Some c \<and>
   (w \<noteq> self_win (cams s c) \<longrightarrow>
      ctx_current_camera (ctx (wins (use c s) w)) = ctx_current_camera (ctx (wins s w))) \<and>
   (self_win (cams s A) = self_win (cams s c) \<longrightarrow>
      activate A body (use c s) =
        (fst (body A (use A (use c s))), use c (snd (body A (use A (use c s))))) \<and>
      use_calls (snd (activate A (\<lambda>_ t. (Inr (), t)) (use c s))) = use_calls s @ [c, A, c])"
proof (intro conjI impI)
  show "ctx_current_camera (ctx (wins (use c s) (self_win (cams s c)))) = Some c"
    by (rule use_current_camera)
next
  assume "w \<noteq> self_win (cams s c)"
  then show "ctx_current_camera (ctx (wins (use c s) w)) = ctx_current_camera (ctx (wins s w))"
    by (simp add: use_other_window)
next
  assume same: "self_win (cams s A) = self_win (cams s c)"
  have held: "ctx_current_camera (ctx (wins (use c s) (self_win (cams (use c s) A)))) = Some c"
    using use_current_camera [of c s] same by (simp add: use_cams)
  show "activate A body (use c s) =
        (fst (body A (use A (use c s))), use c (snd (body A (use A (use c s)))))"
    using held by (simp add: activate_cases)
  show "use_calls (snd (activate A (\<lambda>_ t. (Inr (), t)) (use c s))) = use_calls s @ [c, A, c]"
    using held by (simp add: activate_cases use_use_calls)
qed

theorem use_and_activate_share_camera_slot_witness:
  "self_win (cams (example_world (Some 2)) 1) = self_win (cams (example_world (Some 2)) 0) \<and>
   (5::nat) \<noteq> self_win (cams (example_world (Some 2)) 0) \<and>
   ctx_current_camera (ctx (wins (use 0 (example_world (Some 2))) 0)) = Some 0 \<and>
   ctx_current_camera (ctx (wins (use 0 (example_world (Some 2))) 5)) = Some 2 \<and>
   use_calls (snd (activate 1 (\<lambda>_ t. (Inr (), t)) (use 0 (example_world (Some 2))))) =
     [0, 1, 0]"
proof -
  let ?s = "example_world (Some 2)"
  have w: "self_win (cams ?s r) = 0" for r
    by (simp add: example_defs)
  have held: "ctx_current_camera (ctx (wins ?s 5)) = Some 2"
    by (simp add: example_defs)
  have tr: "use_calls ?s = []"
    by (simp add: example_defs)
  note T = use_and_activate_share_camera_slot [of 0 ?s 5 1 "\<lambda>_ t. (Inr (), t)"]
  from T w held tr show ?thesis by (simp add: use_use_calls)
qed

end
